theory Spec2Isabelle
  imports Main
begin

section \<open>Text, files and the Genome Size Calculator\<close>

text \<open>
  Python strings are modelled as \<open>string\<close>: a character is a code point below 256.
  FASTA data is ASCII, so nothing of the genome files is lost.
\<close>

datatype error =
    ValueError string
  | IOError string
  | CollaboratorError string

text \<open>
  The part of the operating system the pipeline reads. \<open>lookup_path\<close> resolves a path to
  the tree found there (\<open>None\<close>: nothing exists at the path); \<open>open_plain\<close> and
  \<open>gzip_open\<close> are \<open>open(path, "rt", encoding="utf-8")\<close> and
  \<open>gzip.open(path, "rt", encoding="utf-8")\<close>: the decoded characters of the whole file,
  or the error raised (missing file, undecodable bytes, not a gzip stream).
\<close>

datatype fsnode = File | Dir "(string \<times> fsnode) list"

record fsys =
  lookup_path :: "string \<Rightarrow> fsnode option"
  open_plain :: "string \<Rightarrow> error + string"
  gzip_open :: "string \<Rightarrow> error + string"

definition startswith :: "string \<Rightarrow> string \<Rightarrow> bool" where
  "startswith s p = (take (length p) s = p)"

definition endswith :: "string \<Rightarrow> string \<Rightarrow> bool" where
  "endswith s p = (length p \<le> length s \<and> drop (length s - length p) s = p)"

text \<open>
  \<open>str.strip()\<close> removes the characters for which \<open>str.isspace\<close> holds. Below 256 these
  are U+0009..U+000D, U+001C..U+0020, U+0085 and U+00A0.
\<close>

definition isspace :: "char \<Rightarrow> bool" where
  "isspace c =
     (let n = (of_char c :: nat)
      in (9 \<le> n \<and> n \<le> 13) \<or> (28 \<le> n \<and> n \<le> 32) \<or> n = 133 \<or> n = 160)"

definition strip :: "string \<Rightarrow> string" where
  "strip s = rev (dropWhile isspace (rev (dropWhile isspace s)))"

text \<open>\<open>s.replace(c, "")\<close> for a one-character \<open>c\<close>: every occurrence is dropped.\<close>

definition replace_with_empty :: "string \<Rightarrow> char \<Rightarrow> string" where
  "replace_with_empty s c = filter (\<lambda>x. x \<noteq> c) s"

text \<open>
  Text mode with the default \<open>newline=None\<close>: on reading, \<open>\r\n\<close> and a lone \<open>\r\<close>
  become \<open>\n\<close>.
\<close>

fun universal_newlines :: "string \<Rightarrow> string" where
  "universal_newlines [] = []"
| "universal_newlines [c] = (if c = CHR 0x0D then [CHR 0x0A] else [c])"
| "universal_newlines (c # d # cs) =
     (if c = CHR 0x0D \<and> d = CHR 0x0A then CHR 0x0A # universal_newlines cs
      else if c = CHR 0x0D then CHR 0x0A # universal_newlines (d # cs)
      else c # universal_newlines (d # cs))"

text \<open>
  \<open>for line in f\<close>: the text is cut after every \<open>\n\<close>; each line keeps its terminator; a
  last line without one is yielded when it is not empty.
\<close>

fun iter_lines :: "string \<Rightarrow> string list" where
  "iter_lines [] = []"
| "iter_lines (c # cs) =
     (if c = CHR 0x0A then [c] # iter_lines cs
      else (case iter_lines cs of
              [] \<Rightarrow> [[c]]
            | l # ls \<Rightarrow> (c # l) # ls))"

text \<open>The body of the loop of \<open>calculate_genome_size_from_file\<close>, on both counters.\<close>

fun size_loop :: "string list \<Rightarrow> int \<times> int \<Rightarrow> int \<times> int" where
  "size_loop [] (genome_size, genome_size_ungapped) = (genome_size, genome_size_ungapped)"
| "size_loop (line # rest) (genome_size, genome_size_ungapped) =
     (if \<not> startswith line ''>'' then
        (let sequence = strip line
         in size_loop rest
              (genome_size + int (length sequence),
               genome_size_ungapped + int (length (replace_with_empty sequence CHR ''N''))))
      else size_loop rest (genome_size, genome_size_ungapped))"

definition open_func :: "fsys \<Rightarrow> string \<Rightarrow> error + string" where
  "open_func fs reference_genome =
     (if endswith reference_genome ''.gz'' then gzip_open fs reference_genome
      else open_plain fs reference_genome)"

definition calculate_genome_size_from_file :: "fsys \<Rightarrow> string \<Rightarrow> error + int \<times> int" where
  "calculate_genome_size_from_file fs reference_genome =
     (case open_func fs reference_genome of
        Inl e \<Rightarrow> Inl e
      | Inr content \<Rightarrow> Inr (size_loop (iter_lines (universal_newlines content)) (0, 0)))"

subsection \<open>The calculator as the specification words it\<close>

definition sequence_lines :: "string \<Rightarrow> string list" where
  "sequence_lines content =
     filter (\<lambda>l. \<not> startswith l ''>'') (iter_lines (universal_newlines content))"

definition spec_total_length :: "string \<Rightarrow> int" where
  "spec_total_length content =
     sum_list (map (\<lambda>l. int (length (strip l))) (sequence_lines content))"

definition spec_ungapped_length :: "string \<Rightarrow> int" where
  "spec_ungapped_length content =
     sum_list (map (\<lambda>l. int (length (filter (\<lambda>x. x \<noteq> CHR ''N'') (strip l))))
                   (sequence_lines content))"

definition fasta_example :: string where
  "fasta_example = ''>chr1'' @ [CHR 0x0A] @ ''ACGTNN'' @ [CHR 0x0A]"

definition fasta_lowercase :: string where
  "fasta_lowercase = ''>chr1'' @ [CHR 0x0A] @ ''acgtnn'' @ [CHR 0x0A]"

definition example_disk :: fsys where
  "example_disk =
     \<lparr> lookup_path = (\<lambda>p. if p = ''ref.fa'' then Some File else None),
       open_plain = (\<lambda>p. if p = ''ref.fa'' then Inr fasta_example
                          else if p = ''lower.fa'' then Inr fasta_lowercase
                          else Inl (IOError p)),
       gzip_open = (\<lambda>p. Inl (IOError p)) \<rparr>"

section \<open>The Sequence Directory Scanner\<close>

text \<open>\<open>os.path.join(a, b)\<close> on POSIX, for two components.\<close>

definition path_join :: "string \<Rightarrow> string \<Rightarrow> string" where
  "path_join a b =
     (if startswith b ''/'' then b
      else if a = [] \<or> endswith a ''/'' then a @ b
      else a @ ''/'' @ b)"

text \<open>\<open>os.path.isabs\<close> on POSIX.\<close>

definition isabs :: "string \<Rightarrow> bool" where
  "isabs p = startswith p ''/''"

fun is_dir :: "fsnode \<Rightarrow> bool" where
  "is_dir (Dir entries) = True"
| "is_dir File = False"

text \<open>
  \<open>os.walk(base)\<close>, top-down, on a tree without symbolic links: for a directory, the triple
  of its path, the names of its sub-directories and the names of its other entries, both in
  listing order, followed by the walks of the sub-directories in that order. The listing
  order of a directory is the order of its entries in \<open>Dir\<close>. At a path that is not a
  directory the listing fails, \<open>os.walk\<close> ignores the failure and yields nothing.
\<close>

fun walk :: "string \<Rightarrow> fsnode \<Rightarrow> (string \<times> string list \<times> string list) list" where
  "walk base File = []"
| "walk base (Dir entries) =
     (base,
      map fst (filter (\<lambda>e. is_dir (snd e)) entries),
      map fst (filter (\<lambda>e. \<not> is_dir (snd e)) entries))
     # concat (map (\<lambda>e. walk (path_join base (fst e)) (snd e))
                   (filter (\<lambda>e. is_dir (snd e)) entries))"

definition os_walk :: "fsys \<Rightarrow> string \<Rightarrow> (string \<times> string list \<times> string list) list" where
  "os_walk fs base = (case lookup_path fs base of None \<Rightarrow> [] | Some node \<Rightarrow> walk base node)"

definition path_exists :: "fsys \<Rightarrow> string \<Rightarrow> bool" where
  "path_exists fs p = (lookup_path fs p \<noteq> None)"

text \<open>
  What the pipeline writes to standard output: one constructor for each \<open>print\<close> of the
  source, carrying the values that the source interpolates.
\<close>

datatype message =
    Using_local_reference_genome string
  | Fetching_refseq_genome_data
  | Genome_size_bp "int option"
  | Ungapped_genome_size_bp "int option"
  | Refseq_genome_saved_to "string option"
  | Using_local_sequences_from_directory string
  | Searching_for_sequence_data_in_ena
  | Using_provided_ungapped_genome_size "int option"
  | Genome_size_not_provided
  | No_sequence_data_found
  | Downloading_fastq_files
  | Directory_does_not_exist string
  | No_sequence_files_found
  | Sequence_files_found
  | File_item string

type_synonym run_descriptor = string

text \<open>
  The observable trace of a run: the prints, and every call of an operation of the
  operating system or of a collaborator that acts outside the pipeline object.
\<close>

datatype event =
    Print message
  | Makedirs string
  | Get_refseq_genomes int
  | Search_sequence_data "int option"
  | Fetch_fastq_files "run_descriptor list" string

definition file_paths_of :: "(string \<times> string list \<times> string list) list \<Rightarrow> string list" where
  "file_paths_of triples =
     concat (map (\<lambda>(root, dirs, files). map (\<lambda>name. path_join root name) files) triples)"

definition list_sequence_files :: "fsys \<Rightarrow> string \<Rightarrow> bool \<Rightarrow> event list \<times> string list" where
  "list_sequence_files fs directory print_files =
     (if \<not> path_exists fs directory then ([Print (Directory_does_not_exist directory)], [])
      else
        (let file_paths = file_paths_of (os_walk fs directory)
         in if file_paths = [] then ([Print No_sequence_files_found], [])
            else if print_files then
              (Print Sequence_files_found # map (\<lambda>fp. Print (File_item fp)) file_paths,
               file_paths)
            else ([], file_paths)))"

subsection \<open>The inventory as the specification words it\<close>

text \<open>
  The files under a directory, each as the chain of names that leads to it from the
  directory, in descent order: the files of the directory itself first, then those of each
  sub-directory in turn.
\<close>

fun file_chains :: "fsnode \<Rightarrow> string list list" where
  "file_chains File = []"
| "file_chains (Dir entries) =
     map (\<lambda>e. [fst e]) (filter (\<lambda>e. \<not> is_dir (snd e)) entries)
     @ concat (map (\<lambda>e. map (\<lambda>chain. fst e # chain) (file_chains (snd e)))
                   (filter (\<lambda>e. is_dir (snd e)) entries))"

text \<open>\<open>reaches node chain target\<close>: following the names of \<open>chain\<close> from \<open>node\<close> ends at \<open>target\<close>.\<close>

inductive reaches :: "fsnode \<Rightarrow> string list \<Rightarrow> fsnode \<Rightarrow> bool" where
  here: "reaches node [] node"
| down: "(name, child) \<in> set entries \<Longrightarrow> reaches child chain target
         \<Longrightarrow> reaches (Dir entries) (name # chain) target"

definition chain_path :: "string \<Rightarrow> string list \<Rightarrow> string" where
  "chain_path base chain = foldl path_join base chain"

definition example_tree :: fsnode where
  "example_tree =
     Dir [(''a.fastq'', File), (''sub'', Dir [(''c.fastq'', File)]), (''b.fastq'', File)]"

definition relative_disk :: fsys where
  "relative_disk =
     \<lparr> lookup_path = (\<lambda>p. if p = ''data'' then Some example_tree
                           else if p = ''/data'' then Some example_tree
                           else None),
       open_plain = (\<lambda>p. Inl (IOError p)),
       gzip_open = (\<lambda>p. Inl (IOError p)) \<rparr>"

section \<open>The pipeline object, its collaborators and its results\<close>

text \<open>
  The values of a result dictionary; \<open>PNone\<close> is Python's \<open>None\<close>. A dictionary is
  the list of its items in insertion order.
\<close>

datatype pyval =
    PNone
  | PStr string
  | PInt int
  | PStrList "string list"
  | PRuns "run_descriptor list"
  | PFileMap "(string \<times> string list) list"

type_synonym pydict = "(string \<times> pyval) list"

definition dict_get :: "pydict \<Rightarrow> string \<Rightarrow> pyval \<Rightarrow> pyval" where
  "dict_get d k dflt = (case map_of d k of Some v \<Rightarrow> v | None \<Rightarrow> dflt)"

definition keys :: "pydict \<Rightarrow> string list" where
  "keys d = map fst d"

fun py_of_str :: "string option \<Rightarrow> pyval" where
  "py_of_str None = PNone"
| "py_of_str (Some s) = PStr s"

fun py_of_int :: "int option \<Rightarrow> pyval" where
  "py_of_int None = PNone"
| "py_of_int (Some n) = PInt n"

fun str_of_py :: "pyval \<Rightarrow> string option" where
  "str_of_py (PStr s) = Some s"
| "str_of_py v = None"

fun int_of_py :: "pyval \<Rightarrow> int option" where
  "int_of_py (PInt n) = Some n"
| "int_of_py v = None"

text \<open>Truth value of an attribute that holds a string or \<open>None\<close>, an integer or \<open>None\<close>.\<close>

fun truthy_str :: "string option \<Rightarrow> bool" where
  "truthy_str None = False"
| "truthy_str (Some s) = (s \<noteq> [])"

fun truthy_int :: "int option \<Rightarrow> bool" where
  "truthy_int None = False"
| "truthy_int (Some n) = (n \<noteq> 0)"

text \<open>
  The two collaborator objects, as the constructor arguments \<open>__init__\<close> gives them. Their
  classes are not part of the sources at hand; their operations are parameters (\<open>env\<close>).
\<close>

record retriever =
  r_taxonomy_id :: int
  r_outdir :: string

record searcher =
  s_taxonomy_id :: int
  library_strategy :: "string list option"
  instrument_platform :: "string list option"
  max_results :: "int option"
  min_coverage :: "int option"
  max_coverage :: "int option"
  assembly_quality :: "string option"
  sort_flag :: bool


text \<open>
  The attributes of a \<open>Pipeline\<close> object. \<open>genome_size\<close> is not assigned by the
  constructor: \<open>None\<close> there is the attribute not yet set; the source reads it only after
  \<open>run_refseq\<close> has assigned it.
\<close>

record pipeline =
  taxonomy_id :: int
  outdir :: string
  mode :: string
  reference_genome :: "string option"
  sequence_dir :: "string option"
  genome_size_ungapped :: "int option"
  genome_size :: "int option"
  refseq_retriver :: retriever
  ena_searcher :: searcher

text \<open>
  The operations the pipeline calls and does not define: \<open>os.path.abspath\<close>,
  \<open>os.makedirs(path, exist_ok=True)\<close>, and the three operations of the collaborators. An
  operation of a collaborator is a method of the collaborator object: it is given the
  object and the file system as it finds them and gives back, beside its result, the
  object and the file system as it leaves them. An operation that raises gives \<open>Inl\<close>.
\<close>

record env =
  abspath :: "string \<Rightarrow> string"
  makedirs :: "string \<Rightarrow> fsys \<Rightarrow> (error + unit) \<times> fsys"
  get_refseq_genomes ::
    "retriever \<Rightarrow> int \<Rightarrow> fsys \<Rightarrow> (error + string \<times> int \<times> int) \<times> retriever \<times> fsys"
  search_sequence_data ::
    "searcher \<Rightarrow> int option \<Rightarrow> fsys \<Rightarrow> (error + run_descriptor list) \<times> searcher \<times> fsys"
  fetch_fastq_files ::
    "searcher \<Rightarrow> run_descriptor list \<Rightarrow> string \<Rightarrow> fsys
     \<Rightarrow> (error + (string \<times> string list) list) \<times> searcher \<times> fsys"

text \<open>The state a run works on: the object, the file system, and the trace so far.\<close>

record state =
  pipe :: pipeline
  disk :: fsys
  log :: "event list"

definition emit :: "event list \<Rightarrow> state \<Rightarrow> state" where
  "emit events st = st\<lparr>log := log st @ events\<rparr>"

text \<open>\<open>str.lower()\<close> on code points below 256.\<close>

definition lower_char :: "char \<Rightarrow> char" where
  "lower_char c =
     (let n = (of_char c :: nat)
      in if (65 \<le> n \<and> n \<le> 90) \<or> (192 \<le> n \<and> n \<le> 222 \<and> n \<noteq> 215)
         then char_of (n + 32) else c)"

definition lower :: "string \<Rightarrow> string" where
  "lower s = map lower_char s"



subsection \<open>Reference Genome Stage\<close>

text \<open>Lines 88 to 98 of \<open>run_refseq\<close>: the three reports and the result dictionary.\<close>

definition refseq_report :: "state \<Rightarrow> (error + pydict) \<times> state" where
  "refseq_report st =
     (let p = pipe st
      in (Inr [(''reference_genome'', py_of_str (reference_genome p)),
               (''genome_size'', py_of_int (genome_size p)),
               (''genome_size_ungapped'', py_of_int (genome_size_ungapped p))],
          emit [Print (Genome_size_bp (genome_size p)),
                Print (Ungapped_genome_size_bp (genome_size_ungapped p)),
                Print (Refseq_genome_saved_to (reference_genome p))] st))"

text \<open>The branch of \<open>run_refseq\<close> for a reference genome that was supplied (lines 78 to 81).\<close>

definition run_refseq_local :: "string \<Rightarrow> state \<Rightarrow> (error + pydict) \<times> state" where
  "run_refseq_local path st =
     (let st1 = emit [Print (Using_local_reference_genome path)] st
      in case calculate_genome_size_from_file (disk st1) path of
           Inl e \<Rightarrow> (Inl e, st1)
         | Inr (gs, gsu) \<Rightarrow>
             refseq_report
               (st1\<lparr>pipe := (pipe st1)\<lparr>genome_size := Some gs, genome_size_ungapped := Some gsu\<rparr>\<rparr>))"

text \<open>The other branch (lines 83 to 86): the retrieval collaborator is asked.\<close>

definition run_refseq_remote :: "env \<Rightarrow> state \<Rightarrow> (error + pydict) \<times> state" where
  "run_refseq_remote env st =
     (let st1 = emit [Print Fetching_refseq_genome_data,
                      Get_refseq_genomes (taxonomy_id (pipe st))] st
      in case get_refseq_genomes env (refseq_retriver (pipe st1)) (taxonomy_id (pipe st1)) (disk st1) of
           (Inl e, r', fs') \<Rightarrow>
             (Inl e, st1\<lparr>disk := fs', pipe := (pipe st1)\<lparr>refseq_retriver := r'\<rparr>\<rparr>)
         | (Inr (path, gs, gsu), r', fs') \<Rightarrow>
             refseq_report
               (st1\<lparr>disk := fs',
                    pipe := (pipe st1)\<lparr>refseq_retriver := r',
                                        reference_genome := Some path,
                                        genome_size := Some gs,
                                        genome_size_ungapped := Some gsu\<rparr>\<rparr>))"

definition run_refseq :: "env \<Rightarrow> state \<Rightarrow> (error + pydict) \<times> state" where
  "run_refseq env st =
     (case reference_genome (pipe st) of
        Some path \<Rightarrow> if path \<noteq> [] then run_refseq_local path st else run_refseq_remote env st
      | None \<Rightarrow> run_refseq_remote env st)"

subsection \<open>Sequencing Data Stage\<close>

text \<open>The branch of \<open>run_ena\<close> for a sequence directory that was supplied (lines 104 to 106).\<close>

definition run_ena_local :: "string \<Rightarrow> state \<Rightarrow> (error + pydict) \<times> state" where
  "run_ena_local dir st =
     (let st1 = emit [Print (Using_local_sequences_from_directory dir)] st;
          (printed, files) = list_sequence_files (disk st1) dir True
      in (Inr [(''sequence_dir'', PStr dir), (''sequence_files'', PStrList files)],
          emit printed st1))"

text \<open>
  Lines 112 to 117: which ungapped genome size the search is given. The reference genome
  is read in the first branch only, where the guard has found a path.
\<close>

definition resolve_genome_size :: "state \<Rightarrow> (error + unit) \<times> state" where
  "resolve_genome_size st =
     (let p = pipe st
      in if \<not> truthy_int (genome_size_ungapped p) \<and> truthy_str (reference_genome p) then
           (case calculate_genome_size_from_file (disk st) (the (reference_genome p)) of
              Inl e \<Rightarrow> (Inl e, st)
            | Inr (gs, gsu) \<Rightarrow>
                (Inr (), st\<lparr>pipe := p\<lparr>genome_size := Some gs, genome_size_ungapped := Some gsu\<rparr>\<rparr>))
         else if truthy_int (genome_size_ungapped p) then
           (Inr (), emit [Print (Using_provided_ungapped_genome_size (genome_size_ungapped p))] st)
         else (Inr (), emit [Print Genome_size_not_provided] st))"

text \<open>Lines 124 to 138: the download, the flat listing, the result.\<close>

definition download_stage ::
  "env \<Rightarrow> run_descriptor list \<Rightarrow> string \<Rightarrow> state \<Rightarrow> (error + pydict) \<times> state" where
  "download_stage env sequence_data dir st =
     (let st1 = emit [Print Downloading_fastq_files, Fetch_fastq_files sequence_data dir] st
      in case fetch_fastq_files env (ena_searcher (pipe st1)) sequence_data dir (disk st1) of
           (Inl e, s', fs') \<Rightarrow>
             (Inl e, st1\<lparr>disk := fs', pipe := (pipe st1)\<lparr>ena_searcher := s'\<rparr>\<rparr>)
         | (Inr run_accession_to_files, s', fs') \<Rightarrow>
             (let st2 = st1\<lparr>disk := fs', pipe := (pipe st1)\<lparr>ena_searcher := s'\<rparr>\<rparr>;
                  (printed, all_downloaded) = list_sequence_files (disk st2) dir False
              in (Inr [(''sequence_dir'', PStr dir),
                       (''run_accession_to_files'', PFileMap run_accession_to_files),
                       (''all_files_flat'', PStrList all_downloaded)],
                  emit printed st2)))"

text \<open>
  Lines 108 to 119 of \<open>run_ena\<close>: the working directory becomes the output directory, the
  genome size is resolved, the search collaborator is asked.
\<close>

definition search_stage :: "env \<Rightarrow> state \<Rightarrow> (error + run_descriptor list) \<times> state" where
  "search_stage env st =
     (let st1 = st\<lparr>pipe := (pipe st)\<lparr>sequence_dir := Some (outdir (pipe st))\<rparr>\<rparr>;
          st2 = emit [Print Searching_for_sequence_data_in_ena] st1
      in case resolve_genome_size st2 of
           (Inl e, st3) \<Rightarrow> (Inl e, st3)
         | (Inr u, st3) \<Rightarrow>
             (let hint = genome_size_ungapped (pipe st3);
                  st4 = emit [Search_sequence_data hint] st3
              in case search_sequence_data env (ena_searcher (pipe st4)) hint (disk st4) of
                   (Inl e, s', fs') \<Rightarrow>
                     (Inl e, st4\<lparr>disk := fs', pipe := (pipe st4)\<lparr>ena_searcher := s'\<rparr>\<rparr>)
                 | (Inr sequence_data, s', fs') \<Rightarrow>
                     (Inr sequence_data,
                      st4\<lparr>disk := fs', pipe := (pipe st4)\<lparr>ena_searcher := s'\<rparr>\<rparr>)))"

text \<open>
  The branch of \<open>run_ena\<close> without a supplied directory (lines 108 to 138). \<open>dir\<close> is the
  value line 108 assigns to \<open>self.sequence_dir\<close>, which nothing changes afterwards.
\<close>

definition run_ena_remote :: "env \<Rightarrow> state \<Rightarrow> (error + pydict) \<times> state" where
  "run_ena_remote env st =
     (let dir = outdir (pipe st)
      in case search_stage env st of
           (Inl e, st5) \<Rightarrow> (Inl e, st5)
         | (Inr sequence_data, st5) \<Rightarrow>
             if sequence_data = [] then
               (Inr [(''sequence_dir'', PStr dir), (''sequence_data'', PRuns [])],
                emit [Print No_sequence_data_found] st5)
             else download_stage env sequence_data dir st5)"

definition run_ena :: "env \<Rightarrow> state \<Rightarrow> (error + pydict) \<times> state" where
  "run_ena env st =
     (case sequence_dir (pipe st) of
        Some dir \<Rightarrow> if dir \<noteq> [] then run_ena_local dir st else run_ena_remote env st
      | None \<Rightarrow> run_ena_remote env st)"

subsection \<open>Pipeline Controller\<close>

text \<open>Lines 66 to 70: the three attributes taken over from the reference stage's result.\<close>

definition adopt_refseq_results :: "pydict \<Rightarrow> pipeline \<Rightarrow> pipeline" where
  "adopt_refseq_results refseq_results p =
     (let p1 = p\<lparr>genome_size :=
                   int_of_py (dict_get refseq_results ''genome_size'' (py_of_int (genome_size p)))\<rparr>;
          p2 = p1\<lparr>genome_size_ungapped :=
                    int_of_py (dict_get refseq_results ''genome_size_ungapped''
                                 (py_of_int (genome_size_ungapped p1)))\<rparr>
      in p2\<lparr>reference_genome :=
               str_of_py (dict_get refseq_results ''reference_genome''
                            (py_of_str (reference_genome p2)))\<rparr>)"

text \<open>
  \<open>run\<close>: the value returned is \<open>Some\<close> dictionary, or \<open>None\<close> where the source falls off
  the end of the branch without a \<open>return\<close>.
\<close>

definition run :: "env \<Rightarrow> state \<Rightarrow> (error + pydict option) \<times> state" where
  "run env st =
     (if mode (pipe st) = ''refseq'' then
        (case run_refseq env st of
           (Inl e, st') \<Rightarrow> (Inl e, st')
         | (Inr r, st') \<Rightarrow> (Inr (Some r), st'))
      else if mode (pipe st) = ''ena'' then
        (case run_ena env st of
           (Inl e, st') \<Rightarrow> (Inl e, st')
         | (Inr r, st') \<Rightarrow> (Inr (Some r), st'))
      else if mode (pipe st) = ''both'' then
        (case run_refseq env st of
           (Inl e, st1) \<Rightarrow> (Inl e, st1)
         | (Inr refseq_results, st1) \<Rightarrow>
             (case run_ena env (st1\<lparr>pipe := adopt_refseq_results refseq_results (pipe st1)\<rparr>) of
                (Inl e, st2) \<Rightarrow> (Inl e, st2)
              | (Inr r, st2) \<Rightarrow> (Inr None, st2)))
      else (Inl (ValueError (''Unsupported mode: '' @ mode (pipe st))), st))"

text \<open>The calls of collaborator operations in a trace.\<close>

fun is_collaborator_call :: "event \<Rightarrow> bool" where
  "is_collaborator_call (Get_refseq_genomes t) = True"
| "is_collaborator_call (Search_sequence_data h) = True"
| "is_collaborator_call (Fetch_fastq_files c d) = True"
| "is_collaborator_call e = False"

definition collaborator_calls :: "event list \<Rightarrow> event list" where
  "collaborator_calls events = filter is_collaborator_call events"

fun is_fetch :: "event \<Rightarrow> bool" where
  "is_fetch (Fetch_fastq_files c d) = True"
| "is_fetch e = False"

fun search_hints :: "event list \<Rightarrow> int option list" where
  "search_hints [] = []"
| "search_hints (Search_sequence_data h # es) = h # search_hints es"
| "search_hints (e # es) = search_hints es"


text \<open>The attributes of the pipeline that are not collaborator objects.\<close>

definition own_attributes ::
  "pipeline \<Rightarrow> int \<times> string \<times> string \<times> string option \<times> string option \<times> int option \<times> int option" where
  "own_attributes p =
     (taxonomy_id p, outdir p, mode p, reference_genome p, sequence_dir p,
      genome_size_ungapped p, genome_size p)"



subsection \<open>A sample environment\<close>

definition example_env :: env where
  "example_env =
     \<lparr> abspath = (\<lambda>p. if isabs p then p else path_join ''/work'' p),
       makedirs =
         (\<lambda>p fs. (Inr (),
                   if lookup_path fs p = None
                   then fs\<lparr>lookup_path := (\<lambda>q. if q = p then Some (Dir []) else lookup_path fs q)\<rparr>
                   else fs)),
       get_refseq_genomes = (\<lambda>r t fs. (Inr (''/out/genome.fna'', 6, 4), r, fs)),
       search_sequence_data = (\<lambda>s h fs. (Inr [], s, fs)),
       fetch_fastq_files = (\<lambda>s runs d fs. (Inr [], s, fs)) \<rparr>"


definition pipeline_disk :: fsys where
  "pipeline_disk =
     \<lparr> lookup_path =
         (\<lambda>p. if p = ''seqs''
               then Some (Dir [(''r1.fastq'', File), (''r2.fastq'', File), (''r3.fastq'', File)])
               else if p = ''/out'' then Some (Dir [])
               else None),
       open_plain = (\<lambda>p. if p = ''ref.fa'' then Inr fasta_example else Inl (IOError p)),
       gzip_open = (\<lambda>p. Inl (IOError p)) \<rparr>"


definition example_pipeline ::
  "string \<Rightarrow> string option \<Rightarrow> string option \<Rightarrow> int option \<Rightarrow> pipeline" where
  "example_pipeline m ref dir gsu =
     \<lparr> taxonomy_id = 9606,
       outdir = ''/out'',
       mode = m,
       reference_genome = ref,
       sequence_dir = dir,
       genome_size_ungapped = gsu,
       genome_size = None,
       refseq_retriver = \<lparr> r_taxonomy_id = 9606, r_outdir = ''/out'' \<rparr>,
       ena_searcher =
         \<lparr> s_taxonomy_id = 9606,
           library_strategy = Some [''wgs''],
           instrument_platform = None,
           max_results = Some 10,
           min_coverage = None,
           max_coverage = None,
           assembly_quality = None,
           sort_flag = True \<rparr> \<rparr>"

definition example_state ::
  "string \<Rightarrow> string option \<Rightarrow> string option \<Rightarrow> int option \<Rightarrow> state" where
  "example_state m ref dir gsu =
     \<lparr> pipe = example_pipeline m ref dir gsu, disk = pipeline_disk, log = [Makedirs ''/out''] \<rparr>"

section \<open>Properties of the Genome Size Calculator\<close>

lemma size_loop_sums:
  "size_loop ls (a, b) =
     (a + sum_list (map (\<lambda>l. int (length (strip l))) (filter (\<lambda>l. \<not> startswith l ''>'') ls)),
      b + sum_list (map (\<lambda>l. int (length (filter (\<lambda>x. x \<noteq> CHR ''N'') (strip l))))
                        (filter (\<lambda>l. \<not> startswith l ''>'') ls)))"
  by (induction ls arbitrary: a b) (simp_all add: replace_with_empty_def Let_def)

lemma calculate_as_spec:
  "calculate_genome_size_from_file fs p =
     (case open_func fs p of
        Inl e \<Rightarrow> Inl e
      | Inr content \<Rightarrow> Inr (spec_total_length content, spec_ungapped_length content))"
  by (simp add: calculate_genome_size_from_file_def size_loop_sums spec_total_length_def
      spec_ungapped_length_def sequence_lines_def split: sum.splits)

lemma isspace_N: "\<not> isspace CHR ''N''"
  by (simp add: isspace_def)

lemma N_in_strip: "CHR ''N'' \<in> set (strip l) \<longleftrightarrow> CHR ''N'' \<in> set l"
proof -
  have drop: "CHR ''N'' \<in> set (dropWhile isspace xs) \<longleftrightarrow> CHR ''N'' \<in> set xs" for xs
    by (induction xs) (auto simp: isspace_N)
  show ?thesis
    by (simp add: strip_def drop)
qed

lemma filter_length_eq_iff: "length (filter P xs) = length xs \<longleftrightarrow> (\<forall>x \<in> set xs. P x)"
  by (metis filter_id_conv length_filter_le filter_True sum_length_filter_compl
      add_cancel_right_right length_0_conv filter_empty_conv)

lemma sum_list_pointwise_le:
  "(\<And>x. x \<in> set xs \<Longrightarrow> f x \<le> (g x :: int)) \<Longrightarrow> sum_list (map f xs) \<le> sum_list (map g xs)"
  by (induction xs) (simp_all add: add_mono)

lemma sum_list_pointwise_eq_iff:
  "(\<And>x. x \<in> set xs \<Longrightarrow> f x \<le> (g x :: int)) \<Longrightarrow>
   sum_list (map f xs) = sum_list (map g xs) \<longleftrightarrow> (\<forall>x \<in> set xs. f x = g x)"
proof (induction xs)
  case Nil
  then show ?case by simp
next
  case (Cons a xs)
  have le: "sum_list (map f xs) \<le> sum_list (map g xs)"
    using Cons.prems by (intro sum_list_pointwise_le) simp
  have a: "f a \<le> g a"
    using Cons.prems by simp
  have ih: "sum_list (map f xs) = sum_list (map g xs) \<longleftrightarrow> (\<forall>x \<in> set xs. f x = g x)"
    using Cons.IH Cons.prems by simp
  show ?case
    using le a ih by auto
qed

lemma spec_ungapped_le_total: "spec_ungapped_length content \<le> spec_total_length content"
  unfolding spec_ungapped_length_def spec_total_length_def
  by (rule sum_list_pointwise_le) simp

lemma spec_ungapped_eq_total_iff:
  "spec_ungapped_length content = spec_total_length content \<longleftrightarrow>
   (\<forall>l \<in> set (sequence_lines content). CHR ''N'' \<notin> set l)"
proof -
  have "spec_ungapped_length content = spec_total_length content \<longleftrightarrow>
        (\<forall>l \<in> set (sequence_lines content).
           int (length (filter (\<lambda>x. x \<noteq> CHR ''N'') (strip l))) = int (length (strip l)))"
    unfolding spec_ungapped_length_def spec_total_length_def
    by (rule sum_list_pointwise_eq_iff) simp
  also have "\<dots> \<longleftrightarrow> (\<forall>l \<in> set (sequence_lines content). CHR ''N'' \<notin> set (strip l))"
    by (auto simp: filter_length_eq_iff)
  also have "\<dots> \<longleftrightarrow> (\<forall>l \<in> set (sequence_lines content). CHR ''N'' \<notin> set l)"
    by (simp add: N_in_strip)
  finally show ?thesis .
qed

lemma example_disk_opens:
  "open_func example_disk ''ref.fa'' = Inr fasta_example"
  "open_func example_disk ''lower.fa'' = Inr fasta_lowercase"
  by (simp_all add: open_func_def example_disk_def endswith_def)

lemma fasta_example_lines:
  "iter_lines (universal_newlines fasta_example) = [''>chr1'' @ [CHR 0x0A], ''ACGTNN'' @ [CHR 0x0A]]"
  by (simp add: fasta_example_def)

lemma fasta_lowercase_lines:
  "iter_lines (universal_newlines fasta_lowercase) = [''>chr1'' @ [CHR 0x0A], ''acgtnn'' @ [CHR 0x0A]]"
  by (simp add: fasta_lowercase_def)

lemma example_sizes:
  "calculate_genome_size_from_file example_disk ''ref.fa'' = Inr (6, 4)"
  "calculate_genome_size_from_file example_disk ''lower.fa'' = Inr (6, 6)"
  by (simp_all add: calculate_genome_size_from_file_def example_disk_opens fasta_example_lines
      fasta_lowercase_lines startswith_def strip_def isspace_def replace_with_empty_def)

text \<open>
  C5. On every readable genome file the calculator returns the sum, over the lines that do
  not begin with \<open>>\<close>, of the length of the stripped line as total length, and of the
  length of the stripped line without its uppercase \<open>N\<close> as ungapped length; an unreadable
  file gives the error and no sizes. On the two lines \<open>>chr1\<close>, \<open>ACGTNN\<close> it returns
  \<open>(6, 4)\<close>, and lowercase \<open>n\<close> is not removed: \<open>>chr1\<close>, \<open>acgtnn\<close> gives \<open>(6, 6)\<close>.
\<close>

theorem calculator_sums_sequence_lines:
  "calculate_genome_size_from_file fs p =
     (case open_func fs p of
        Inl e \<Rightarrow> Inl e
      | Inr content \<Rightarrow> Inr (spec_total_length content, spec_ungapped_length content))
   \<and> calculate_genome_size_from_file example_disk ''ref.fa'' = Inr (6, 4)
   \<and> calculate_genome_size_from_file example_disk ''lower.fa'' = Inr (6, 6)"
  by (simp only: example_sizes simp_thms) (rule calculate_as_spec)

text \<open>
  C6. Whenever the genome file can be read, the calculator returns sizes with
  ungapped length at most total length, and the two are equal exactly when no line that
  does not begin with \<open>>\<close> contains an uppercase \<open>N\<close>.
\<close>

theorem calculator_ungapped_le_total:
  assumes "open_func fs p = Inr content"
  shows "\<exists>total ungapped.
           calculate_genome_size_from_file fs p = Inr (total, ungapped)
           \<and> ungapped \<le> total
           \<and> (ungapped = total \<longleftrightarrow> (\<forall>l \<in> set (sequence_lines content). CHR ''N'' \<notin> set l))"
  using assms spec_ungapped_le_total [of content] spec_ungapped_eq_total_iff [of content]
  by (simp add: calculate_as_spec)

theorem calculator_ungapped_le_total_witness:
  "open_func example_disk ''ref.fa'' = Inr fasta_example
   \<and> (\<exists>total ungapped.
        calculate_genome_size_from_file example_disk ''ref.fa'' = Inr (total, ungapped)
        \<and> ungapped \<le> total
        \<and> (ungapped = total \<longleftrightarrow>
             (\<forall>l \<in> set (sequence_lines fasta_example). CHR ''N'' \<notin> set l)))"
  using calculator_ungapped_le_total [of example_disk "''ref.fa''" fasta_example]
  by (simp add: example_disk_opens)

section \<open>Properties of the Sequence Directory Scanner\<close>

lemma file_paths_of_Cons:
  "file_paths_of ((r, ds, fs) # rest) = map (path_join r) fs @ file_paths_of rest"
  by (simp add: file_paths_of_def)

lemma file_paths_of_concat:
  "file_paths_of (concat xss) = concat (map file_paths_of xss)"
  by (induction xss) (simp_all add: file_paths_of_def)

lemma chain_path_Cons: "chain_path base (n # c) = chain_path (path_join base n) c"
  by (simp add: chain_path_def)

lemma walk_file_chains:
  "file_paths_of (walk base node) = map (chain_path base) (file_chains node)"
proof (induction base node rule: walk.induct)
  case (1 base)
  then show ?case by (simp add: file_paths_of_def)
next
  case (2 base entries)
  have sub: "concat (map (\<lambda>e. file_paths_of (walk (path_join base (fst e)) (snd e)))
                      (filter (\<lambda>e. is_dir (snd e)) entries))
           = concat (map (\<lambda>e. map (chain_path base) (map (\<lambda>chain. fst e # chain) (file_chains (snd e))))
                      (filter (\<lambda>e. is_dir (snd e)) entries))"
    using 2 by (intro arg_cong [where f = concat] map_cong refl) (simp add: chain_path_Cons o_def)
  show ?case
    by (simp add: file_paths_of_Cons file_paths_of_concat o_def sub map_concat chain_path_def)
qed

lemma reaches_File: "reaches File c t \<Longrightarrow> c = [] \<and> t = File"
  by (erule reaches.cases) simp_all

lemma file_chains_reaches:
  "chain \<in> set (file_chains node) \<longleftrightarrow> chain \<noteq> [] \<and> reaches node chain File"
proof (induction node arbitrary: chain rule: file_chains.induct)
  case 1
  then show ?case by (auto dest: reaches_File)
next
  case (2 entries)
  show ?case
  proof
    assume "chain \<in> set (file_chains (Dir entries))"
    then consider (f) e where "e \<in> set entries" "\<not> is_dir (snd e)" "chain = [fst e]"
      | (d) e c where "e \<in> set entries" "is_dir (snd e)" "c \<in> set (file_chains (snd e))" "chain = fst e # c"
      by auto
    then show "chain \<noteq> [] \<and> reaches (Dir entries) chain File"
    proof cases
      case f
      then have "snd e = File" by (cases "snd e") simp_all
      then have "(fst e, File) \<in> set entries" using f(1) by (metis prod.collapse)
      then show ?thesis using f(3) by (auto intro: reaches.intros)
    next
      case d
      then have "reaches (snd e) c File" using 2 [of e c] by simp
      moreover have "(fst e, snd e) \<in> set entries" using d(1) by simp
      ultimately have "reaches (Dir entries) (fst e # c) File" by (rule reaches.down [rotated])
      then show ?thesis using d(4) by simp
    qed
  next
    assume a: "chain \<noteq> [] \<and> reaches (Dir entries) chain File"
    then obtain name child rest where e: "(name, child) \<in> set entries" "reaches child rest File" "chain = name # rest"
      by (auto elim: reaches.cases)
    show "chain \<in> set (file_chains (Dir entries))"
    proof (cases child)
      case File
      then have "rest = []" using e(2) by (auto dest: reaches_File)
      moreover have "(name, child) \<in> set (filter (\<lambda>e. \<not> is_dir (snd e)) entries)"
        using e(1) File by simp
      then have "[fst (name, child)] \<in> (\<lambda>e. [fst e]) ` set (filter (\<lambda>e. \<not> is_dir (snd e)) entries)"
        by (rule imageI)
      ultimately show ?thesis using e(3) by simp
    next
      case (Dir es)
      then have "rest \<noteq> []" using e(2) by (auto elim: reaches.cases)
      then have "rest \<in> set (file_chains child)" using 2 [of "(name, child)" rest] e Dir by simp
      moreover have "(name, child) \<in> set (filter (\<lambda>e. is_dir (snd e)) entries)"
        using e(1) Dir by simp
      ultimately have "\<exists>e \<in> set (filter (\<lambda>e. is_dir (snd e)) entries).
                         chain \<in> (\<lambda>c. fst e # c) ` set (file_chains (snd e))"
        using e(3) by (intro bexI [of _ "(name, child)"]) simp_all
      then show ?thesis by simp
    qed
  qed
qed

lemma isabs_join: "isabs base \<Longrightarrow> isabs (path_join base n)"
  by (cases base) (auto simp: isabs_def path_join_def startswith_def)

lemma isabs_chain: "isabs base \<Longrightarrow> isabs (chain_path base c)"
  unfolding chain_path_def by (induction c arbitrary: base) (simp_all add: isabs_join)

lemma scan_result:
  "snd (list_sequence_files fs directory print_files) =
     (case lookup_path fs directory of None \<Rightarrow> []
      | Some node \<Rightarrow> map (chain_path directory) (file_chains node))"
proof (cases "lookup_path fs directory")
  case None
  then show ?thesis by (simp add: list_sequence_files_def path_exists_def)
next
  case (Some node)
  then have "file_paths_of (os_walk fs directory) = map (chain_path directory) (file_chains node)"
    by (simp add: os_walk_def walk_file_chains)
  then show ?thesis
    using Some by (simp add: list_sequence_files_def path_exists_def Let_def)
qed

lemma relative_disk_lookup:
  "lookup_path relative_disk ''data'' = Some example_tree"
  "lookup_path relative_disk ''/data'' = Some example_tree"
  "lookup_path relative_disk ''missing'' = None"
  by (simp_all add: relative_disk_def)

lemma example_tree_chains:
  "file_chains example_tree = [[''a.fastq''], [''b.fastq''], [''sub'', ''c.fastq'']]"
  by (simp add: example_tree_def)

lemma example_chain_paths:
  "chain_path ''data'' [''a.fastq''] = ''data/a.fastq''"
  "chain_path ''data'' [''b.fastq''] = ''data/b.fastq''"
  "chain_path ''data'' [''sub'', ''c.fastq''] = ''data/sub/c.fastq''"
  "chain_path ''/data'' [''a.fastq''] = ''/data/a.fastq''"
  "chain_path ''/data'' [''b.fastq''] = ''/data/b.fastq''"
  "chain_path ''/data'' [''sub'', ''c.fastq''] = ''/data/sub/c.fastq''"
  by (simp_all add: chain_path_def path_join_def startswith_def endswith_def)

text \<open>
  C3 (as amended). For every directory path and verbosity flag the scanner returns, in
  descent order (the files of a directory in listing order, then those of each of its
  sub-directories in turn; not sorted), one path for every file reachable from the
  directory by a chain of names, and for nothing else; the verbosity flag has no part in
  the result. Each path is the directory path as it was given, joined with the chain of
  names: the paths are absolute when the given directory path is absolute.
\<close>

theorem scanner_lists_files_in_descent_order:
  "snd (list_sequence_files fs directory print_files) =
     (case lookup_path fs directory of
        None \<Rightarrow> []
      | Some node \<Rightarrow> map (chain_path directory) (file_chains node))
   \<and> (\<forall>node chain. chain \<in> set (file_chains node) \<longleftrightarrow> chain \<noteq> [] \<and> reaches node chain File)
   \<and> (isabs directory \<longrightarrow> list_all isabs (snd (list_sequence_files fs directory print_files)))"
proof (intro conjI allI impI)
  show "snd (list_sequence_files fs directory print_files) =
     (case lookup_path fs directory of
        None \<Rightarrow> []
      | Some node \<Rightarrow> map (chain_path directory) (file_chains node))"
    by (rule scan_result)
next
  fix node chain
  show "chain \<in> set (file_chains node) \<longleftrightarrow> chain \<noteq> [] \<and> reaches node chain File"
    by (rule file_chains_reaches)
next
  assume "isabs directory"
  then show "list_all isabs (snd (list_sequence_files fs directory print_files))"
    by (cases "lookup_path fs directory") (simp_all add: scan_result list_all_iff isabs_chain)
qed

theorem scanner_lists_files_in_descent_order_witness:
  "isabs ''/data''
   \<and> snd (list_sequence_files relative_disk ''/data'' True)
       = [''/data/a.fastq'', ''/data/b.fastq'', ''/data/sub/c.fastq'']
   \<and> list_all isabs (snd (list_sequence_files relative_disk ''/data'' True))"
  using scanner_lists_files_in_descent_order [of relative_disk "''/data''" True]
  by (simp add: relative_disk_lookup example_tree_chains example_chain_paths isabs_def
      startswith_def)

text \<open>
  C3, counterexample. Asked for the relative directory \<open>data\<close>, the scanner returns
  relative paths, of which \<open>data/a.fastq\<close> is the first.
\<close>

theorem scanner_relative_directory_counterexample:
  "snd (list_sequence_files relative_disk ''data'' True)
     = [''data/a.fastq'', ''data/b.fastq'', ''data/sub/c.fastq'']
   \<and> \<not> isabs ''data/a.fastq''"
  by (simp add: scan_result relative_disk_lookup example_tree_chains example_chain_paths
      isabs_def startswith_def)

text \<open>
  C9. For every directory path at which nothing exists, the scanner returns the empty
  sequence, and its only output is the report that the directory does not exist. The
  scanner has no error outcome.
\<close>

theorem scanner_missing_directory:
  assumes "lookup_path fs directory = None"
  shows "list_sequence_files fs directory print_files
           = ([Print (Directory_does_not_exist directory)], [])"
  using assms by (simp add: list_sequence_files_def path_exists_def)

theorem scanner_missing_directory_witness:
  "lookup_path relative_disk ''missing'' = None
   \<and> list_sequence_files relative_disk ''missing'' True
       = ([Print (Directory_does_not_exist ''missing'')], [])"
  using scanner_missing_directory [of relative_disk "''missing''" True]
  by (simp add: relative_disk_lookup)

section \<open>Properties of the stages and of the controller\<close>











lemma scanner_prints_only:
  "collaborator_calls (fst (list_sequence_files fs d flag)) = []"
  by (simp add: list_sequence_files_def collaborator_calls_def Let_def o_def)

lemma collaborator_calls_append:
  "collaborator_calls (xs @ ys) = collaborator_calls xs @ collaborator_calls ys"
  by (simp add: collaborator_calls_def)

lemma collaborator_calls_print:
  "collaborator_calls (Print m # es) = collaborator_calls es"
  by (simp add: collaborator_calls_def)

lemma run_ena_local_eq:
  "run_ena_local dir st =
     (Inr [(''sequence_dir'', PStr dir),
           (''sequence_files'', PStrList (snd (list_sequence_files (disk st) dir True)))],
      st\<lparr>log := log st @ Print (Using_local_sequences_from_directory dir)
                 # fst (list_sequence_files (disk st) dir True)\<rparr>)"
  by (simp add: run_ena_local_def emit_def Let_def split: prod.splits)

text \<open>
  C7. When the configuration carries a sequence directory (a path, not the empty string),
  the Sequencing Data Stage returns the mapping with exactly the keys \<open>sequence_dir\<close> and
  \<open>sequence_files\<close>, the latter being the scanner's inventory of that directory; the trace
  gains no call of a collaborator, and the object and the file system are as before.
\<close>

theorem run_ena_local_directory:
  assumes "sequence_dir (pipe st) = Some dir" and "dir \<noteq> []"
  shows "fst (run_ena env st) =
           Inr [(''sequence_dir'', PStr dir),
                (''sequence_files'', PStrList (snd (list_sequence_files (disk st) dir True)))]
         \<and> map_sum id keys (fst (run_ena env st)) = Inr [''sequence_dir'', ''sequence_files'']
         \<and> collaborator_calls (log (snd (run_ena env st))) = collaborator_calls (log st)
         \<and> pipe (snd (run_ena env st)) = pipe st
         \<and> disk (snd (run_ena env st)) = disk st"
  using assms
  by (simp add: run_ena_def run_ena_local_eq collaborator_calls_append collaborator_calls_print
      scanner_prints_only keys_def)




lemma own_attributes_eqD:
  assumes "own_attributes p = own_attributes q"
  shows "taxonomy_id p = taxonomy_id q" and "outdir p = outdir q" and "mode p = mode q"
    and "reference_genome p = reference_genome q" and "sequence_dir p = sequence_dir q"
    and "genome_size_ungapped p = genome_size_ungapped q" and "genome_size p = genome_size q"
  using assms by (simp_all add: own_attributes_def)

lemma refseq_report_pipe: "pipe (snd (refseq_report st)) = pipe st"
  by (simp add: refseq_report_def emit_def Let_def)







lemma download_stage_own:
  "own_attributes (pipe (snd (download_stage env runs dir st))) = own_attributes (pipe st)"
proof -
  obtain r s' fs' where f:
    "fetch_fastq_files env (ena_searcher (pipe st)) runs dir (disk st) = (r, s', fs')"
    by (cases "fetch_fastq_files env (ena_searcher (pipe st)) runs dir (disk st)") auto
  have "pipe (snd (download_stage env runs dir st)) = (pipe st)\<lparr>ena_searcher := s'\<rparr>"
    using f by (cases r) (simp_all add: download_stage_def Let_def emit_def split: prod.splits)
  then show ?thesis
    by (simp add: own_attributes_def)
qed

lemma run_ena_remote_own:
  "own_attributes (pipe (snd (run_ena_remote env st)))
     = own_attributes (pipe (snd (search_stage env st)))"
proof -
  obtain r st5 where s: "search_stage env st = (r, st5)"
    by (cases "search_stage env st") auto
  show ?thesis
  proof (cases r)
    case (Inl e)
    then show ?thesis using s by (simp add: run_ena_remote_def)
  next
    case (Inr runs)
    show ?thesis
    proof (cases "runs = []")
      case True
      then show ?thesis
        using s Inr by (simp add: run_ena_remote_def emit_def)
    next
      case False
      then show ?thesis
        using s Inr download_stage_own [of env runs "outdir (pipe st)" st5]
        by (simp add: run_ena_remote_def)
    qed
  qed
qed


lemma py_roundtrip [simp]:
  "int_of_py (py_of_int x) = x" "str_of_py (py_of_str y) = y"
  by (cases x; simp) (cases y; simp)

lemma refseq_report_result:
  "fst (refseq_report st) =
     Inr [(''reference_genome'', py_of_str (reference_genome (pipe st))),
          (''genome_size'', py_of_int (genome_size (pipe st))),
          (''genome_size_ungapped'', py_of_int (genome_size_ungapped (pipe st)))]"
  by (simp add: refseq_report_def Let_def)

lemma run_refseq_result:
  assumes "fst (run_refseq env st) = Inr d"
  shows "d = [(''reference_genome'', py_of_str (reference_genome (pipe (snd (run_refseq env st))))),
              (''genome_size'', py_of_int (genome_size (pipe (snd (run_refseq env st))))),
              (''genome_size_ungapped'',
               py_of_int (genome_size_ungapped (pipe (snd (run_refseq env st)))))]"
proof -
  have local: "fst (run_refseq_local path st) = Inr d \<Longrightarrow>
      d = [(''reference_genome'', py_of_str (reference_genome (pipe (snd (run_refseq_local path st))))),
           (''genome_size'', py_of_int (genome_size (pipe (snd (run_refseq_local path st))))),
           (''genome_size_ungapped'',
            py_of_int (genome_size_ungapped (pipe (snd (run_refseq_local path st)))))]" for path
    by (auto simp: run_refseq_local_def Let_def refseq_report_result refseq_report_pipe
        split: sum.splits prod.splits)
  have remote: "fst (run_refseq_remote env st) = Inr d \<Longrightarrow>
      d = [(''reference_genome'', py_of_str (reference_genome (pipe (snd (run_refseq_remote env st))))),
           (''genome_size'', py_of_int (genome_size (pipe (snd (run_refseq_remote env st))))),
           (''genome_size_ungapped'',
            py_of_int (genome_size_ungapped (pipe (snd (run_refseq_remote env st)))))]"
    by (auto simp: run_refseq_remote_def Let_def refseq_report_result refseq_report_pipe
        split: sum.splits prod.splits)
  show ?thesis
    using assms local remote by (auto simp: run_refseq_def split: option.splits if_splits)
qed

lemma adopt_own_report:
  "adopt_refseq_results
     [(''reference_genome'', py_of_str (reference_genome p)),
      (''genome_size'', py_of_int (genome_size p)),
      (''genome_size_ungapped'', py_of_int (genome_size_ungapped p))] p = p"
  by (simp add: adopt_refseq_results_def dict_get_def Let_def)

lemma adopt_after_run_refseq:
  assumes "run_refseq env st = (Inr d, st1)"
  shows "st1\<lparr>pipe := adopt_refseq_results d (pipe st1)\<rparr> = st1"
proof -
  have "fst (run_refseq env st) = Inr d" and s: "snd (run_refseq env st) = st1"
    using assms by simp_all
  then have "adopt_refseq_results d (pipe st1) = pipe st1"
    using run_refseq_result [of env st d] adopt_own_report [of "pipe st1"] by simp
  then show ?thesis by simp
qed

lemma run_both_eq:
  assumes "mode (pipe st) = ''both''"
  shows "run env st =
           (case run_refseq env st of
              (Inl e, st1) \<Rightarrow> (Inl e, st1)
            | (Inr d, st1) \<Rightarrow>
                (case run_ena env st1 of
                   (Inl e, st2) \<Rightarrow> (Inl e, st2)
                 | (Inr r, st2) \<Rightarrow> (Inr None, st2)))"
  using assms by (simp add: run_def adopt_after_run_refseq split: prod.splits sum.splits)



lemma pipeline_disk_size:
  "calculate_genome_size_from_file pipeline_disk ''ref.fa'' = Inr (6, 4)"
  by (simp add: calculate_genome_size_from_file_def open_func_def pipeline_disk_def endswith_def
      fasta_example_lines startswith_def strip_def isspace_def replace_with_empty_def)

lemma pipeline_disk_scan:
  "list_sequence_files pipeline_disk ''seqs'' True =
     ([Print Sequence_files_found, Print (File_item ''seqs/r1.fastq''),
       Print (File_item ''seqs/r2.fastq''), Print (File_item ''seqs/r3.fastq'')],
      [''seqs/r1.fastq'', ''seqs/r2.fastq'', ''seqs/r3.fastq''])"
  by (simp add: list_sequence_files_def path_exists_def os_walk_def pipeline_disk_def
      file_paths_of_def path_join_def startswith_def endswith_def)

lemma example_state_sel:
  "pipe (example_state m ref dir gsu) = example_pipeline m ref dir gsu"
  "disk (example_state m ref dir gsu) = pipeline_disk"
  "log (example_state m ref dir gsu) = [Makedirs ''/out'']"
  by (simp_all add: example_state_def)

lemma example_pipeline_sel:
  "taxonomy_id (example_pipeline m ref dir gsu) = 9606"
  "outdir (example_pipeline m ref dir gsu) = ''/out''"
  "mode (example_pipeline m ref dir gsu) = m"
  "reference_genome (example_pipeline m ref dir gsu) = ref"
  "sequence_dir (example_pipeline m ref dir gsu) = dir"
  "genome_size_ungapped (example_pipeline m ref dir gsu) = gsu"
  "genome_size (example_pipeline m ref dir gsu) = None"
  by (simp_all add: example_pipeline_def)

lemma example_search:
  "search_sequence_data example_env s h fs = (Inr [], s, fs)"
  "get_refseq_genomes example_env r t fs = (Inr (''/out/genome.fna'', 6, 4), r, fs)"
  by (simp_all add: example_env_def)

lemma example_search_stage_no_ref:
  "search_stage example_env (example_state m None None gsu) =
     (Inr [],
      (example_state m None None gsu)
        \<lparr>pipe := (example_pipeline m None None gsu)\<lparr>sequence_dir := Some ''/out''\<rparr>,
         log := [Makedirs ''/out'', Print Searching_for_sequence_data_in_ena,
                 if truthy_int gsu then Print (Using_provided_ungapped_genome_size gsu)
                 else Print Genome_size_not_provided,
                 Search_sequence_data gsu]\<rparr>)"
  by (simp add: search_stage_def resolve_genome_size_def Let_def emit_def example_state_sel
      example_pipeline_sel example_search)

lemma example_run_ena_no_ref:
  "run_ena example_env (example_state m None None gsu) =
     (Inr [(''sequence_dir'', PStr ''/out''), (''sequence_data'', PRuns [])],
      (example_state m None None gsu)
        \<lparr>pipe := (example_pipeline m None None gsu)\<lparr>sequence_dir := Some ''/out''\<rparr>,
         log := [Makedirs ''/out'', Print Searching_for_sequence_data_in_ena,
                 if truthy_int gsu then Print (Using_provided_ungapped_genome_size gsu)
                 else Print Genome_size_not_provided,
                 Search_sequence_data gsu, Print No_sequence_data_found]\<rparr>)"
  by (simp add: run_ena_def run_ena_remote_def example_search_stage_no_ref Let_def emit_def
      example_state_sel example_pipeline_sel)

lemma example_run_ena_local:
  "run_ena example_env (example_state m ref (Some ''seqs'') gsu) =
     (Inr [(''sequence_dir'', PStr ''seqs''),
           (''sequence_files'', PStrList [''seqs/r1.fastq'', ''seqs/r2.fastq'', ''seqs/r3.fastq''])],
      (example_state m ref (Some ''seqs'') gsu)
        \<lparr>log := [Makedirs ''/out'', Print (Using_local_sequences_from_directory ''seqs''),
                 Print Sequence_files_found, Print (File_item ''seqs/r1.fastq''),
                 Print (File_item ''seqs/r2.fastq''), Print (File_item ''seqs/r3.fastq'')]\<rparr>)"
  by (simp add: run_ena_def run_ena_local_eq example_state_sel example_pipeline_sel
      pipeline_disk_scan)

lemma example_run_refseq_local:
  "run_refseq example_env (example_state m (Some ''ref.fa'') dir gsu) =
     (Inr [(''reference_genome'', PStr ''ref.fa''), (''genome_size'', PInt 6),
           (''genome_size_ungapped'', PInt 4)],
      (example_state m (Some ''ref.fa'') dir (Some 4))
        \<lparr>pipe := (example_pipeline m (Some ''ref.fa'') dir (Some 4))\<lparr>genome_size := Some 6\<rparr>,
         log := [Makedirs ''/out'', Print (Using_local_reference_genome ''ref.fa''),
                 Print (Genome_size_bp (Some 6)), Print (Ungapped_genome_size_bp (Some 4)),
                 Print (Refseq_genome_saved_to (Some ''ref.fa''))]\<rparr>)"
  by (simp add: run_refseq_def run_refseq_local_def refseq_report_def Let_def emit_def
      example_state_sel example_pipeline_sel pipeline_disk_size)
    (simp add: example_state_def example_pipeline_def)


lemma run_both_never_returns_result:
  assumes "mode (pipe st) = ''both''"
  shows "fst (run env st) \<noteq> Inr (Some r)"
  using assms by (simp add: run_both_eq split: prod.splits sum.splits)

text \<open>
  C1. In mode \<open>both\<close> the source calls \<open>self.run_ena()\<close> and drops its value: the branch
  has no \<open>return\<close>. With a local reference genome and a local sequence directory of three
  files, \<open>run\<close> returns \<open>None\<close> in mode \<open>both\<close>, where the same configuration in mode
  \<open>ena\<close> returns the mapping of the Sequencing Data Stage.
\<close>

theorem run_both_returns_none:
  "fst (run example_env (example_state ''both'' (Some ''ref.fa'') (Some ''seqs'') None)) = Inr None
   \<and> fst (run example_env (example_state ''ena'' (Some ''ref.fa'') (Some ''seqs'') None)) =
       Inr (Some [(''sequence_dir'', PStr ''seqs''),
                  (''sequence_files'',
                   PStrList [''seqs/r1.fastq'', ''seqs/r2.fastq'', ''seqs/r3.fastq''])])"
proof
  have "mode (pipe (example_state ''both'' (Some ''ref.fa'') (Some ''seqs'') None)) = ''both''"
    by (simp add: example_state_sel example_pipeline_sel)
  then show "fst (run example_env (example_state ''both'' (Some ''ref.fa'') (Some ''seqs'') None))
               = Inr None"
    by (simp add: run_both_eq example_run_refseq_local run_ena_def run_ena_local_eq
        example_state_sel example_pipeline_sel)
next
  show "fst (run example_env (example_state ''ena'' (Some ''ref.fa'') (Some ''seqs'') None)) =
       Inr (Some [(''sequence_dir'', PStr ''seqs''),
                  (''sequence_files'',
                   PStrList [''seqs/r1.fastq'', ''seqs/r2.fastq'', ''seqs/r3.fastq''])])"
    by (simp add: run_def example_run_ena_local example_state_sel example_pipeline_sel)
qed
























theorem run_ena_local_directory_witness:
  "sequence_dir (pipe (example_state ''ena'' None (Some ''seqs'') None)) = Some ''seqs''
   \<and> ''seqs'' \<noteq> []
   \<and> fst (run_ena example_env (example_state ''ena'' None (Some ''seqs'') None)) =
       Inr [(''sequence_dir'', PStr ''seqs''),
            (''sequence_files'',
             PStrList [''seqs/r1.fastq'', ''seqs/r2.fastq'', ''seqs/r3.fastq''])]
   \<and> collaborator_calls (log (snd (run_ena example_env
         (example_state ''ena'' None (Some ''seqs'') None)))) = []"
  using run_ena_local_directory
    [of "example_state ''ena'' None (Some ''seqs'') None" "''seqs''" example_env]
  by (simp add: example_state_sel example_pipeline_sel pipeline_disk_scan collaborator_calls_def)

lemma scanner_no_fetch: "filter is_fetch (fst (list_sequence_files fs d flag)) = []"
  by (simp add: list_sequence_files_def Let_def o_def)

lemma search_stage_no_fetch:
  "filter is_fetch (log (snd (search_stage env st))) = filter is_fetch (log st)"
  by (simp add: search_stage_def resolve_genome_size_def Let_def emit_def
      split: sum.splits prod.splits)

text \<open>
  C8. When no sequence directory was supplied and the search collaborator is reached and
  returns the empty sequence, the Sequencing Data Stage returns (it does not raise) the
  mapping with exactly the keys \<open>sequence_dir\<close> and \<open>sequence_data\<close>, the latter empty; after
  the search its only output is the report that nothing was found, and the trace gains no
  call of the download collaborator.
\<close>

theorem run_ena_no_candidates:
  assumes "\<not> truthy_str (sequence_dir (pipe st))"
    and "fst (search_stage env st) = Inr []"
  shows "fst (run_ena env st) =
           Inr [(''sequence_dir'', PStr (outdir (pipe st))), (''sequence_data'', PRuns [])]
         \<and> map_sum id keys (fst (run_ena env st)) = Inr [''sequence_dir'', ''sequence_data'']
         \<and> log (snd (run_ena env st)) =
             log (snd (search_stage env st)) @ [Print No_sequence_data_found]
         \<and> filter is_fetch (log (snd (run_ena env st))) = filter is_fetch (log st)"
proof -
  obtain st5 where s: "search_stage env st = (Inr [], st5)"
    using assms(2) by (cases "search_stage env st") simp
  have remote: "run_ena env st = run_ena_remote env st"
    using assms(1) by (cases "sequence_dir (pipe st)") (simp_all add: run_ena_def)
  have r: "run_ena_remote env st =
             (Inr [(''sequence_dir'', PStr (outdir (pipe st))), (''sequence_data'', PRuns [])],
              emit [Print No_sequence_data_found] st5)"
    using s by (simp add: run_ena_remote_def Let_def)
  have f: "filter is_fetch (log st5) = filter is_fetch (log st)"
    using search_stage_no_fetch [of env st] s by simp
  show ?thesis
    using s f by (simp add: remote r emit_def keys_def)
qed

theorem run_ena_no_candidates_witness:
  "\<not> truthy_str (sequence_dir (pipe (example_state ''ena'' None None None)))
   \<and> fst (search_stage example_env (example_state ''ena'' None None None)) = Inr []
   \<and> fst (run_ena example_env (example_state ''ena'' None None None)) =
       Inr [(''sequence_dir'', PStr ''/out''), (''sequence_data'', PRuns [])]
   \<and> filter is_fetch (log (snd (run_ena example_env (example_state ''ena'' None None None)))) = []"
  using run_ena_no_candidates [of "example_state ''ena'' None None None" example_env]
  by (simp add: example_state_sel example_pipeline_sel example_search_stage_no_ref)

lemma search_hints_append: "search_hints (xs @ ys) = search_hints xs @ search_hints ys"
  by (induction xs rule: search_hints.induct) simp_all

lemma search_hints_file_items: "search_hints (map (\<lambda>fp. Print (File_item fp)) xs) = []"
  by (induction xs) simp_all

lemma scanner_no_search: "search_hints (fst (list_sequence_files fs d flag)) = []"
  by (simp add: list_sequence_files_def Let_def search_hints_file_items)

lemma download_stage_log:
  "\<exists>more. log (snd (download_stage env runs dir st)) = log st @ more \<and> search_hints more = []"
proof -
  obtain r s' fs' where f:
    "fetch_fastq_files env (ena_searcher (pipe st)) runs dir (disk st) = (r, s', fs')"
    by (cases "fetch_fastq_files env (ena_searcher (pipe st)) runs dir (disk st)") auto
  show ?thesis
  proof (cases r)
    case (Inl e)
    then show ?thesis
      using f by (simp add: download_stage_def Let_def emit_def)
  next
    case (Inr m)
    have "log (snd (download_stage env runs dir st)) =
            log st @ [Print Downloading_fastq_files, Fetch_fastq_files runs dir]
                   @ fst (list_sequence_files fs' dir False)"
      using f Inr by (simp add: download_stage_def Let_def emit_def split: prod.splits)
    moreover have "search_hints ([Print Downloading_fastq_files, Fetch_fastq_files runs dir]
                   @ fst (list_sequence_files fs' dir False)) = []"
      by (simp add: scanner_no_search)
    ultimately show ?thesis by blast
  qed
qed

lemma run_ena_remote_log:
  "\<exists>more. log (snd (run_ena_remote env st)) = log (snd (search_stage env st)) @ more
          \<and> search_hints more = []"
proof (cases "search_stage env st")
  case (Pair r st5)
  show ?thesis
  proof (cases r)
    case (Inl e)
    then show ?thesis using Pair by (simp add: run_ena_remote_def)
  next
    case (Inr runs)
    show ?thesis
    proof (cases "runs = []")
      case True
      then show ?thesis using Pair Inr by (simp add: run_ena_remote_def emit_def)
    next
      case False
      then show ?thesis
        using Pair Inr download_stage_log [of env runs "outdir (pipe st)" st5]
        by (simp add: run_ena_remote_def)
    qed
  qed
qed

lemma search_stage_recomputes:
  assumes "\<not> truthy_int (genome_size_ungapped (pipe st))"
    and "reference_genome (pipe st) = Some path" and "path \<noteq> []"
    and "calculate_genome_size_from_file (disk st) path = Inr (gs, gsu)"
  shows "log (snd (search_stage env st)) =
           log st @ [Print Searching_for_sequence_data_in_ena, Search_sequence_data (Some gsu)]"
    and "genome_size (pipe (snd (search_stage env st))) = Some gs"
    and "genome_size_ungapped (pipe (snd (search_stage env st))) = Some gsu"
  using assms
  by (simp_all add: search_stage_def resolve_genome_size_def Let_def emit_def
      split: sum.splits prod.splits)

lemma search_stage_calculator_fails:
  assumes "\<not> truthy_int (genome_size_ungapped (pipe st))"
    and "reference_genome (pipe st) = Some path" and "path \<noteq> []"
    and "calculate_genome_size_from_file (disk st) path = Inl e"
  shows "search_stage env st =
           (Inl e, emit [Print Searching_for_sequence_data_in_ena]
                     (st\<lparr>pipe := (pipe st)\<lparr>sequence_dir := Some (outdir (pipe st))\<rparr>\<rparr>))"
  using assms
  by (simp add: search_stage_def resolve_genome_size_def Let_def emit_def)

lemma search_stage_no_reference:
  assumes "\<not> truthy_int (genome_size_ungapped (pipe st))"
    and "\<not> truthy_str (reference_genome (pipe st))"
  shows "log (snd (search_stage env st)) =
           log st @ [Print Searching_for_sequence_data_in_ena, Print Genome_size_not_provided,
                     Search_sequence_data (genome_size_ungapped (pipe st))]"
    and "genome_size_ungapped (pipe (snd (search_stage env st))) = genome_size_ungapped (pipe st)"
  using assms
  by (simp_all add: search_stage_def resolve_genome_size_def Let_def emit_def
      split: sum.splits prod.splits)

lemma run_ena_is_remote:
  "\<not> truthy_str (sequence_dir (pipe st)) \<Longrightarrow> run_ena env st = run_ena_remote env st"
  by (cases "sequence_dir (pipe st)") (simp_all add: run_ena_def)

text \<open>
  C10 (as amended). Let no sequence directory be supplied and the supplied ungapped genome
  size be 0. If a reference genome path is known and the calculator reads it, the stage
  takes the sizes from the file and the search collaborator is called once, with the
  computed ungapped size; if the calculator fails, the stage raises its error and the
  search collaborator is not called. If no reference genome path is known, the stage
  prints that the genome size was not provided and calls the search collaborator once,
  with the stored 0 as the hint.
\<close>

theorem zero_genome_size_is_not_a_known_size:
  assumes "\<not> truthy_str (sequence_dir (pipe st))"
    and "genome_size_ungapped (pipe st) = Some 0"
  shows "(\<forall>path gs gsu.
            reference_genome (pipe st) = Some path \<and> path \<noteq> []
            \<and> calculate_genome_size_from_file (disk st) path = Inr (gs, gsu) \<longrightarrow>
              (\<exists>more. log (snd (run_ena env st)) =
                        log st @ [Print Searching_for_sequence_data_in_ena,
                                  Search_sequence_data (Some gsu)] @ more
                      \<and> search_hints more = [])
              \<and> genome_size (pipe (snd (run_ena env st))) = Some gs
              \<and> genome_size_ungapped (pipe (snd (run_ena env st))) = Some gsu)
         \<and> (\<forall>path e.
              reference_genome (pipe st) = Some path \<and> path \<noteq> []
              \<and> calculate_genome_size_from_file (disk st) path = Inl e \<longrightarrow>
                fst (run_ena env st) = Inl e
                \<and> search_hints (log (snd (run_ena env st))) = search_hints (log st))
         \<and> (\<not> truthy_str (reference_genome (pipe st)) \<longrightarrow>
              (\<exists>more. log (snd (run_ena env st)) =
                        log st @ [Print Searching_for_sequence_data_in_ena,
                                  Print Genome_size_not_provided,
                                  Search_sequence_data (Some 0)] @ more
                      \<and> search_hints more = [])
              \<and> genome_size_ungapped (pipe (snd (run_ena env st))) = Some 0)"
proof (intro conjI allI impI)
  fix path gs gsu
  assume a: "reference_genome (pipe st) = Some path \<and> path \<noteq> []
             \<and> calculate_genome_size_from_file (disk st) path = Inr (gs, gsu)"
  have z: "\<not> truthy_int (genome_size_ungapped (pipe st))"
    using assms(2) by simp
  note s = search_stage_recomputes [OF z, of path gs gsu env]
  show "\<exists>more. log (snd (run_ena env st)) =
                 log st @ [Print Searching_for_sequence_data_in_ena,
                           Search_sequence_data (Some gsu)] @ more
               \<and> search_hints more = []"
    using run_ena_remote_log [of env st] s(1) a by (auto simp: run_ena_is_remote [OF assms(1)])
  show "genome_size (pipe (snd (run_ena env st))) = Some gs"
    using s(2) a own_attributes_eqD(7) [OF run_ena_remote_own [of env st]]
    by (simp add: run_ena_is_remote [OF assms(1)])
  show "genome_size_ungapped (pipe (snd (run_ena env st))) = Some gsu"
    using s(3) a own_attributes_eqD(6) [OF run_ena_remote_own [of env st]]
    by (simp add: run_ena_is_remote [OF assms(1)])
next
  fix path e
  assume a: "reference_genome (pipe st) = Some path \<and> path \<noteq> []
             \<and> calculate_genome_size_from_file (disk st) path = Inl e"
  have z: "\<not> truthy_int (genome_size_ungapped (pipe st))"
    using assms(2) by simp
  have s: "search_stage env st =
           (Inl e, emit [Print Searching_for_sequence_data_in_ena]
                     (st\<lparr>pipe := (pipe st)\<lparr>sequence_dir := Some (outdir (pipe st))\<rparr>\<rparr>))"
    using search_stage_calculator_fails [OF z, of path e env] a by simp
  show "fst (run_ena env st) = Inl e"
    by (simp add: run_ena_is_remote [OF assms(1)] run_ena_remote_def s)
  show "search_hints (log (snd (run_ena env st))) = search_hints (log st)"
    by (simp add: run_ena_is_remote [OF assms(1)] run_ena_remote_def s emit_def
        search_hints_append)
next
  assume a: "\<not> truthy_str (reference_genome (pipe st))"
  have z: "\<not> truthy_int (genome_size_ungapped (pipe st))"
    using assms(2) by simp
  note s = search_stage_no_reference [OF z a, of env]
  show "\<exists>more. log (snd (run_ena env st)) =
                 log st @ [Print Searching_for_sequence_data_in_ena,
                           Print Genome_size_not_provided,
                           Search_sequence_data (Some 0)] @ more
               \<and> search_hints more = []"
    using run_ena_remote_log [of env st] s(1) assms(2)
    by (auto simp: run_ena_is_remote [OF assms(1)])
  show "genome_size_ungapped (pipe (snd (run_ena env st))) = Some 0"
    using s(2) assms(2) own_attributes_eqD(6) [OF run_ena_remote_own [of env st]]
    by (simp add: run_ena_is_remote [OF assms(1)])
qed

theorem zero_genome_size_is_not_a_known_size_witness:
  "\<not> truthy_str (sequence_dir (pipe (example_state ''ena'' (Some ''ref.fa'') None (Some 0))))
   \<and> genome_size_ungapped (pipe (example_state ''ena'' (Some ''ref.fa'') None (Some 0))) = Some 0
   \<and> reference_genome (pipe (example_state ''ena'' (Some ''ref.fa'') None (Some 0)))
       = Some ''ref.fa''
   \<and> calculate_genome_size_from_file
         (disk (example_state ''ena'' (Some ''ref.fa'') None (Some 0))) ''ref.fa'' = Inr (6, 4)
   \<and> genome_size_ungapped
         (pipe (snd (run_ena example_env (example_state ''ena'' (Some ''ref.fa'') None (Some 0)))))
       = Some 4
   \<and> \<not> truthy_str (reference_genome (pipe (example_state ''ena'' None None (Some 0))))
   \<and> genome_size_ungapped
         (pipe (snd (run_ena example_env (example_state ''ena'' None None (Some 0))))) = Some 0"
proof -
  let ?s1 = "example_state ''ena'' (Some ''ref.fa'') None (Some 0)"
  let ?s2 = "example_state ''ena'' None None (Some 0)"
  have a1: "\<not> truthy_str (sequence_dir (pipe ?s1))" and b1: "genome_size_ungapped (pipe ?s1) = Some 0"
    and a2: "\<not> truthy_str (sequence_dir (pipe ?s2))" and b2: "genome_size_ungapped (pipe ?s2) = Some 0"
    by (simp_all add: example_state_sel example_pipeline_sel)
  have c1: "reference_genome (pipe ?s1) = Some ''ref.fa'' \<and> ''ref.fa'' \<noteq> []
            \<and> calculate_genome_size_from_file (disk ?s1) ''ref.fa'' = Inr (6, 4)"
    by (simp add: example_state_sel example_pipeline_sel pipeline_disk_size)
  have c2: "\<not> truthy_str (reference_genome (pipe ?s2))"
    by (simp add: example_state_sel example_pipeline_sel)
  have "genome_size_ungapped (pipe (snd (run_ena example_env ?s1))) = Some 4"
    using zero_genome_size_is_not_a_known_size [OF a1 b1, of example_env] c1 by blast
  moreover have "genome_size_ungapped (pipe (snd (run_ena example_env ?s2))) = Some 0"
    using zero_genome_size_is_not_a_known_size [OF a2 b2, of example_env] c2 by blast
  ultimately show ?thesis
    using a1 b1 c1 c2 by simp
qed

text \<open>
  C10, counterexample. With the ungapped genome size supplied as 0 and no reference genome,
  the search collaborator is called with the hint 0; with no size supplied it is called
  with no hint.
\<close>

theorem zero_genome_size_is_passed_on_counterexample:
  "search_hints (log (snd (run_ena example_env (example_state ''ena'' None None (Some 0)))))
     = [Some 0]
   \<and> search_hints (log (snd (run_ena example_env (example_state ''ena'' None None None))))
     = [None]"
  by (simp add: example_run_ena_no_ref)

end
